theory Spec2Isabelle
  imports Complex_Main
begin

section \<open>Data model\<close>

text \<open>
  Prices, ATR values, equity and share counts are floats in the source. They are modelled
  as exact reals. The one operation of the engines that has no exact value is a division
  by zero: with numpy operands the source gets \<open>inf\<close> or \<open>nan\<close> and a RuntimeWarning
  there and goes on computing with it. The model makes that point an error value, so a
  run that performs a division with a zero divisor ends in \<open>Inl ZeroDivision\<close>.
\<close>

datatype error = ZeroDivision

definition float_div :: "real \<Rightarrow> real \<Rightarrow> error + real" where
  "float_div a b = (if b = 0 then Inl ZeroDivision else Inr (a / b))"

text \<open>
  A bar of the data frame as \<open>read_csv_to_dataframe\<close> loads it: the price columns the
  computations read. The index of a bar in the list stands for its timestamp.
\<close>

record candle =
  High :: real
  Low :: real
  Close :: real

text \<open>
  A row of the data frame the backtest loops read: a bar with the columns \<open>ATR\<close> and
  \<open>TotalSignal\<close> added, after \<open>dropna\<close> has removed the rows with an undefined value.
\<close>

record row = candle +
  ATR :: real
  TotalSignal :: int

text \<open>
  The local variables of the backtest loops. \<open>run_random_backtest\<close> has the first four,
  \<open>run_tom_basso_coin_toss\<close> has \<open>trail_stop\<close> as well.
\<close>

record account =
  equity :: real
  position :: real
  entry_price :: real
  trades :: "real list"

record engine = account +
  trail_stop :: real

section \<open>The trailing-stop engine (tom\_basso\_simplified\_with\_trailing\_stop.py)\<close>

text \<open>Lines 74 to 90: the coin flip entries of one bar.\<close>

definition entry_step :: "real \<Rightarrow> real \<Rightarrow> row \<Rightarrow> engine \<Rightarrow> error + engine" where
  "entry_step risk_pct atr_mult r s =
     (let price = Close r; atr = ATR r; signal = TotalSignal r;
          risk_amount = risk_pct * equity s
      in if signal = 2 \<and> position s \<le> 0 then
           (let stop_distance = atr_mult * atr
            in case float_div risk_amount stop_distance of
                 Inl e \<Rightarrow> Inl e
               | Inr position_size \<Rightarrow>
                   Inr (s\<lparr>position := position_size, entry_price := price,
                          trail_stop := price - stop_distance\<rparr>))
         else if signal = 1 \<and> position s \<ge> 0 then
           (let stop_distance = atr_mult * atr
            in case float_div risk_amount stop_distance of
                 Inl e \<Rightarrow> Inl e
               | Inr position_size \<Rightarrow>
                   Inr (s\<lparr>position := - position_size, entry_price := price,
                          trail_stop := price + stop_distance\<rparr>))
         else Inr s)"

text \<open>Lines 92 to 109: the trailing stop of one bar.\<close>

definition trailing_step :: "real \<Rightarrow> row \<Rightarrow> engine \<Rightarrow> engine" where
  "trailing_step atr_mult r s =
     (let price = Close r; atr = ATR r
      in if position s > 0 then
           (let new_trail = price - atr_mult * atr;
                s1 = s\<lparr>trail_stop := max (trail_stop s) new_trail\<rparr>
            in if price \<le> trail_stop s1 then
                 (let pnl = position s1 * (price - entry_price s1)
                  in s1\<lparr>equity := equity s1 + pnl, trades := trades s1 @ [pnl],
                        position := 0\<rparr>)
               else s1)
         else if position s < 0 then
           (let new_trail = price + atr_mult * atr;
                s1 = s\<lparr>trail_stop := min (trail_stop s) new_trail\<rparr>
            in if price \<ge> trail_stop s1 then
                 (let pnl = position s1 * (price - entry_price s1)
                  in s1\<lparr>equity := equity s1 + pnl, trades := trades s1 @ [pnl],
                        position := 0\<rparr>)
               else s1)
         else s)"

text \<open>The body of the loop, lines 71 to 109.\<close>

definition process_bar :: "real \<Rightarrow> real \<Rightarrow> row \<Rightarrow> engine \<Rightarrow> error + engine" where
  "process_bar risk_pct atr_mult r s =
     (case entry_step risk_pct atr_mult r s of
        Inl e \<Rightarrow> Inl e
      | Inr s1 \<Rightarrow> Inr (trailing_step atr_mult r s1))"

text \<open>The loop \<open>for i in range(len(df))\<close> from a given state.\<close>

fun run_loop :: "real \<Rightarrow> real \<Rightarrow> row list \<Rightarrow> engine \<Rightarrow> error + engine" where
  "run_loop risk_pct atr_mult [] s = Inr s"
| "run_loop risk_pct atr_mult (r # rs) s =
     (case process_bar risk_pct atr_mult r s of
        Inl e \<Rightarrow> Inl e
      | Inr s' \<Rightarrow> run_loop risk_pct atr_mult rs s')"

text \<open>Lines 62 to 66: the state before the first bar.\<close>

definition initial_state :: "real \<Rightarrow> engine" where
  "initial_state initial_capital =
     \<lparr>equity = initial_capital, position = 0, entry_price = 0, trades = [],
      trail_stop = 0\<rparr>"

text \<open>The state of the loop after its first \<open>i\<close> bars.\<close>

definition state_after :: "real \<Rightarrow> real \<Rightarrow> real \<Rightarrow> row list \<Rightarrow> nat \<Rightarrow> error + engine" where
  "state_after initial_capital risk_pct atr_mult df i =
     run_loop risk_pct atr_mult (take i df) (initial_state initial_capital)"

text \<open>\<open>np.mean(trades) if trades else 0\<close>\<close>

definition mean_or_zero :: "real list \<Rightarrow> real" where
  "mean_or_zero xs = (if xs \<noteq> [] then sum_list xs / real (length xs) else 0)"

text \<open>
  The function as a whole: it returns the final equity, the number of trades and their
  mean. Its defaults are \<open>initial_capital = 10000\<close>, \<open>risk_pct = 0.01\<close> and
  \<open>atr_mult = 3.0\<close>.
\<close>

definition run_tom_basso_coin_toss ::
  "row list \<Rightarrow> real \<Rightarrow> real \<Rightarrow> real \<Rightarrow> error + (real \<times> nat \<times> real)" where
  "run_tom_basso_coin_toss df initial_capital risk_pct atr_mult =
     (case run_loop risk_pct atr_mult df (initial_state initial_capital) of
        Inl e \<Rightarrow> Inl e
      | Inr s \<Rightarrow> Inr (equity s, length (trades s), mean_or_zero (trades s)))"

section \<open>The engine of the plot variant (tom\_basso\_simplified\_with\_plot.py)\<close>

text \<open>
  The body of its loop, lines 127 to 164, is the body of the trailing-stop engine, line
  for line; line 166 then appends the equity to \<open>equity_curve\<close>.
\<close>

fun plot_loop ::
  "real \<Rightarrow> real \<Rightarrow> row list \<Rightarrow> engine \<times> real list \<Rightarrow> error + engine \<times> real list" where
  "plot_loop risk_pct atr_mult [] sc = Inr sc"
| "plot_loop risk_pct atr_mult (r # rs) (s, equity_curve) =
     (case process_bar risk_pct atr_mult r s of
        Inl e \<Rightarrow> Inl e
      | Inr s' \<Rightarrow> plot_loop risk_pct atr_mult rs (s', equity_curve @ [equity s']))"

text \<open>It starts with \<open>equity_curve = [initial_capital]\<close> and returns the curve and the trades.\<close>

definition run_tom_basso_coin_toss_plot ::
  "row list \<Rightarrow> real \<Rightarrow> real \<Rightarrow> real \<Rightarrow> error + (real list \<times> real list)" where
  "run_tom_basso_coin_toss_plot df initial_capital risk_pct atr_mult =
     (case plot_loop risk_pct atr_mult df (initial_state initial_capital, [initial_capital]) of
        Inl e \<Rightarrow> Inl e
      | Inr (s, equity_curve) \<Rightarrow> Inr (equity_curve, trades s))"

section \<open>The fixed-notional baseline (tom\_basso\_simplified\_v2.py)\<close>

text \<open>Lines 91 to 101: the body of the loop of \<open>run_random_backtest\<close>.\<close>

definition backtest_bar :: "row \<Rightarrow> account \<Rightarrow> error + account" where
  "backtest_bar r s =
     (let price = Close r; signal = TotalSignal r
      in if signal = 2 \<and> position s = 0 then
           (case float_div 100 price of
              Inl e \<Rightarrow> Inl e
            | Inr p \<Rightarrow> Inr (s\<lparr>position := p, entry_price := price\<rparr>))
         else if signal = 1 \<and> position s > 0 then
           (let pnl = position s * (price - entry_price s)
            in Inr (s\<lparr>equity := equity s + pnl, trades := trades s @ [pnl], position := 0\<rparr>))
         else Inr s)"

fun backtest_loop :: "row list \<Rightarrow> account \<Rightarrow> error + account" where
  "backtest_loop [] s = Inr s"
| "backtest_loop (r # rs) s =
     (case backtest_bar r s of
        Inl e \<Rightarrow> Inl e
      | Inr s' \<Rightarrow> backtest_loop rs s')"

definition backtest_start :: "real \<Rightarrow> account" where
  "backtest_start initial_capital =
     \<lparr>equity = initial_capital, position = 0, entry_price = 0, trades = []\<rparr>"

definition run_random_backtest :: "row list \<Rightarrow> real \<Rightarrow> error + (real \<times> nat \<times> real)" where
  "run_random_backtest df initial_capital =
     (case backtest_loop df (backtest_start initial_capital) of
        Inl e \<Rightarrow> Inl e
      | Inr s \<Rightarrow> Inr (equity s, length (trades s), mean_or_zero (trades s)))"

section \<open>Preparing the data frame\<close>

text \<open>\<open>df = df[df.High != df.Low]\<close> in \<open>read_csv_to_dataframe\<close>.\<close>

definition drop_degenerate :: "candle list \<Rightarrow> candle list" where
  "drop_degenerate cs = filter (\<lambda>c. High c \<noteq> Low c) cs"

text \<open>
  A column with undefined entries is a list of options: \<open>None\<close> is pandas' NaN.
  \<open>Series.shift()\<close> moves a column one row down and leaves the first row undefined.
\<close>

definition shift :: "real list \<Rightarrow> real option list" where
  "shift xs = take (length xs) (None # map Some xs)"

text \<open>
  The true range of one bar, from the previous close. \<open>np.abs\<close> and \<open>np.maximum\<close>
  give NaN on a NaN operand.
\<close>

definition tr_at :: "candle \<Rightarrow> real option \<Rightarrow> real option" where
  "tr_at c prev =
     (case prev of
        None \<Rightarrow> None
      | Some p \<Rightarrow>
          (let high_low = High c - Low c; high_close = \<bar>High c - p\<bar>;
               low_close = \<bar>Low c - p\<bar>
           in Some (max high_low (max high_close low_close))))"

text \<open>
  \<open>rolling(window=length).mean()\<close>: the window of row \<open>i\<close> is the last \<open>length\<close> rows
  up to \<open>i\<close>, and the mean is defined when the window holds \<open>length\<close> defined values
  (\<open>min_periods\<close> is the window length).
\<close>

definition rolling_mean :: "nat \<Rightarrow> real option list \<Rightarrow> real option list" where
  "rolling_mean w xs =
     map (\<lambda>i. let win = drop (Suc i - w) (take (Suc i) xs)
              in if w = 0 \<or> length win < w \<or> None \<in> set win then None
                 else Some (sum_list (map the win) / real w))
       [0..<length xs]"

text \<open>Lines 43 to 46 of \<open>add_atr\<close>: the true range column \<open>tr\<close>.\<close>

definition true_range :: "candle list \<Rightarrow> real option list" where
  "true_range df = map2 tr_at df (shift (map Close df))"

text \<open>\<open>add_atr\<close>: the column \<open>ATR\<close> of the frame.\<close>

definition add_atr :: "candle list \<Rightarrow> nat \<Rightarrow> real option list" where
  "add_atr df length' =
     (let tr = true_range df
      in rolling_mean length' tr)"

text \<open>
  \<open>np.random.choice\<close> draws from numpy's global generator, which none of the three
  files seeds. The generator is modelled by the sequence of raw draws it will produce
  and the number of draws made so far; a draw picks an element of the array and moves
  the generator on.
\<close>

type_synonym generator = "nat \<Rightarrow> nat"

definition random_choice :: "int list \<Rightarrow> generator \<Rightarrow> nat \<Rightarrow> int \<times> nat" where
  "random_choice a g k = (a ! (g k mod length a), Suc k)"

text \<open>\<open>total_signal(df, current_candle)\<close> reads neither argument.\<close>

definition total_signal :: "candle list \<Rightarrow> nat \<Rightarrow> generator \<Rightarrow> nat \<Rightarrow> int \<times> nat" where
  "total_signal df current_candle g k = random_choice [1, 2] g k"

text \<open>The list comprehension \<open>[total_signal(df, idx) for idx in df.index]\<close>.\<close>

fun signals_for :: "candle list \<Rightarrow> nat list \<Rightarrow> generator \<Rightarrow> nat \<Rightarrow> int list \<times> nat" where
  "signals_for df [] g k = ([], k)"
| "signals_for df (idx # rest) g k =
     (let (v, k1) = total_signal df idx g k;
          (vs, k2) = signals_for df rest g k1
      in (v # vs, k2))"

text \<open>\<open>add_total_signal\<close>: the column \<open>TotalSignal\<close> and the generator after it.\<close>

definition add_total_signal :: "candle list \<Rightarrow> generator \<Rightarrow> nat \<Rightarrow> int list \<times> nat" where
  "add_total_signal df g k = signals_for df [0..<length df] g k"

text \<open>\<open>df.dropna(inplace=True)\<close>: the rows with an undefined ATR go.\<close>

definition dropna :: "candle list \<Rightarrow> real option list \<Rightarrow> int list \<Rightarrow> row list" where
  "dropna df atrs sigs =
     List.map_filter
       (\<lambda>(c, a, sg). case a of
                        None \<Rightarrow> None
                      | Some v \<Rightarrow> Some (candle.extend c \<lparr>ATR = v, TotalSignal = sg\<rparr>))
       (zip df (zip atrs sigs))"

text \<open>
  The main part of the script up to the backtest: load, \<open>add_atr\<close>, \<open>add_total_signal\<close>,
  \<open>dropna\<close>. The scripts call \<open>add_atr\<close> with \<open>length=10\<close>.
\<close>

definition prepare :: "candle list \<Rightarrow> nat \<Rightarrow> generator \<Rightarrow> nat \<Rightarrow> row list \<times> nat" where
  "prepare csv length' g k =
     (let df = drop_degenerate csv;
          atrs = add_atr df length';
          (sigs, k') = add_total_signal df g k
      in (dropna df atrs sigs, k'))"

text \<open>The script of the trailing-stop file: the prepared frame goes through the engine.\<close>

definition main_trailing_stop ::
  "candle list \<Rightarrow> nat \<Rightarrow> generator \<Rightarrow> nat \<Rightarrow> error + (real \<times> nat \<times> real)" where
  "main_trailing_stop csv length' g k =
     run_tom_basso_coin_toss (fst (prepare csv length' g k)) 10000 (1 / 100) 3"

text \<open>The script of the plot variant.\<close>

definition main_plot ::
  "candle list \<Rightarrow> nat \<Rightarrow> generator \<Rightarrow> nat \<Rightarrow> error + (real list \<times> real list)" where
  "main_plot csv length' g k =
     run_tom_basso_coin_toss_plot (fst (prepare csv length' g k)) 10000 (1 / 100) 3"

section \<open>Scenarios\<close>

text \<open>Three bars closing at 100, 105 and 95, each with ATR 2 and a long signal.\<close>

definition round_trip_bars :: "row list" where
  "round_trip_bars =
     [\<lparr>High = 101, Low = 99, Close = 100, ATR = 2, TotalSignal = 2\<rparr>,
      \<lparr>High = 106, Low = 104, Close = 105, ATR = 2, TotalSignal = 2\<rparr>,
      \<lparr>High = 96, Low = 94, Close = 95, ATR = 2, TotalSignal = 2\<rparr>]"

text \<open>Two bars closing at 100 and 95, each with ATR 2 and a short signal.\<close>

definition short_bars :: "row list" where
  "short_bars =
     [\<lparr>High = 101, Low = 99, Close = 100, ATR = 2, TotalSignal = 1\<rparr>,
      \<lparr>High = 96, Low = 94, Close = 95, ATR = 2, TotalSignal = 1\<rparr>]"

text \<open>A long signal at 100 followed by a short signal at 110.\<close>

definition reversal_bars :: "row list" where
  "reversal_bars =
     [\<lparr>High = 101, Low = 99, Close = 100, ATR = 2, TotalSignal = 2\<rparr>,
      \<lparr>High = 111, Low = 109, Close = 110, ATR = 2, TotalSignal = 1\<rparr>]"


text \<open>A bar with ATR 0 and a long signal.\<close>

definition zero_atr_bar :: row where
  "zero_atr_bar = \<lparr>High = 101, Low = 99, Close = 100, ATR = 0, TotalSignal = 2\<rparr>"


text \<open>Four bars as loaded from the file, before any column is added.\<close>

definition sample_candles :: "candle list" where
  "sample_candles =
     [\<lparr>High = 101, Low = 99, Close = 100\<rparr>, \<lparr>High = 101, Low = 99, Close = 100\<rparr>,
      \<lparr>High = 106, Low = 104, Close = 105\<rparr>, \<lparr>High = 91, Low = 89, Close = 90\<rparr>]"

section \<open>Evaluation of one bar\<close>

lemmas bar_defs =
  process_bar_def entry_step_def trailing_step_def float_div_def Let_def

lemmas run_defs = state_after_def run_tom_basso_coin_toss_def initial_state_def mean_or_zero_def

lemmas frame_defs =
  prepare_def drop_degenerate_def add_total_signal_def total_signal_def random_choice_def
  dropna_def candle.extend_def add_atr_def true_range_def shift_def tr_at_def
  rolling_mean_def upt_rec

section \<open>The loops, bar by bar\<close>

lemma run_loop_append:
  "run_loop rp am (xs @ ys) s =
     (case run_loop rp am xs s of Inl e \<Rightarrow> Inl e | Inr s' \<Rightarrow> run_loop rp am ys s')"
  by (induction xs arbitrary: s) (auto split: sum.splits)

lemma state_after_Suc:
  assumes "i < length df"
  shows "state_after ic rp am df (Suc i) =
     (case state_after ic rp am df i of
        Inl e \<Rightarrow> Inl e
      | Inr s \<Rightarrow> process_bar rp am (df ! i) s)"
  using assms
  by (simp add: state_after_def take_Suc_conv_app_nth run_loop_append split: sum.splits)

lemma long_stays_open:
  assumes "process_bar rp am r s = Inr s'" "0 < position s" "0 < position s'"
  shows "trail_stop s' = max (trail_stop s) (Close r - am * ATR r)"
  using assms
  by (auto simp: bar_defs split: if_splits)

lemma short_stays_open:
  assumes "process_bar rp am r s = Inr s'" "position s < 0" "position s' < 0"
  shows "trail_stop s' = min (trail_stop s) (Close r + am * ATR r)"
  using assms
  by (auto simp: bar_defs split: if_splits)

lemma process_bar_conserves:
  assumes "process_bar rp am r s = Inr s'"
  shows "equity s' - sum_list (trades s') = equity s - sum_list (trades s)"
  using assms
  by (auto simp: bar_defs split: if_splits)

lemma run_loop_conserves:
  "run_loop rp am df s = Inr s' \<Longrightarrow>
   equity s' - sum_list (trades s') = equity s - sum_list (trades s)"
proof (induction df arbitrary: s)
  case Nil
  then show ?case by simp
next
  case (Cons r rs)
  from Cons.prems obtain s1 where
    b: "process_bar rp am r s = Inr s1" and l: "run_loop rp am rs s1 = Inr s'"
    by (auto split: sum.splits)
  from Cons.IH [OF l] process_bar_conserves [OF b] show ?case by simp
qed

lemma process_bar_returns:
  "am * ATR r \<noteq> 0 \<Longrightarrow> \<exists>s'. process_bar rp am r s = Inr s'"
  by (simp add: bar_defs)

lemma run_loop_returns:
  "\<forall>r\<in>set df. am * ATR r \<noteq> 0 \<Longrightarrow> \<exists>s'. run_loop rp am df s = Inr s'"
proof (induction df arbitrary: s)
  case Nil
  then show ?case by simp
next
  case (Cons r rs)
  then obtain s1 where "process_bar rp am r s = Inr s1"
    using process_bar_returns [of am r rp s] by auto
  with Cons show ?case by simp
qed



lemma plot_loop_snoc:
  "plot_loop rp am (xs @ [x]) sc =
     (case plot_loop rp am xs sc of
        Inl e \<Rightarrow> Inl e
      | Inr (s1, c1) \<Rightarrow>
          (case process_bar rp am x s1 of
             Inl e \<Rightarrow> Inl e
           | Inr s2 \<Rightarrow> Inr (s2, c1 @ [equity s2])))"
proof (induction xs arbitrary: sc)
  case Nil
  show ?case by (cases sc) (simp split: sum.splits)
next
  case (Cons a xs)
  show ?case by (cases sc) (simp add: Cons.IH split: sum.splits)
qed

lemma plot_loop_curve:
  "plot_loop rp am df (s0, [c0]) = Inr (s', c') \<Longrightarrow>
   run_loop rp am df s0 = Inr s' \<and> length c' = Suc (length df) \<and> c' ! 0 = c0 \<and>
   (\<forall>i<length df. \<exists>si. run_loop rp am (take (Suc i) df) s0 = Inr si \<and>
        c' ! Suc i = equity si)"
proof (induction df arbitrary: s' c' rule: rev_induct)
  case Nil
  then show ?case by auto
next
  case (snoc x xs)
  from snoc.prems obtain s1 c1 where
    p: "plot_loop rp am xs (s0, [c0]) = Inr (s1, c1)" and
    b: "process_bar rp am x s1 = Inr s'" and c: "c' = c1 @ [equity s']"
    by (auto simp: plot_loop_snoc split: sum.splits prod.splits)
  note ih = snoc.IH [OF p]
  have r: "run_loop rp am (xs @ [x]) s0 = Inr s'"
    using ih b by (simp add: run_loop_append)
  have len: "length c' = Suc (length (xs @ [x]))"
    using ih c by simp
  have z: "c' ! 0 = c0"
    using ih c by (simp add: nth_append)
  have "\<exists>si. run_loop rp am (take (Suc i) (xs @ [x])) s0 = Inr si \<and> c' ! Suc i = equity si"
    if "i < length (xs @ [x])" for i
  proof (cases "i < length xs")
    case True
    with ih obtain si where
      "run_loop rp am (take (Suc i) xs) s0 = Inr si" "c1 ! Suc i = equity si"
      by blast
    with True ih c show ?thesis by (simp add: nth_append)
  next
    case False
    with that have "i = length xs" by simp
    with r ih c show ?thesis by (simp add: nth_append)
  qed
  with r len z show ?case by blast
qed

lemma plot_loop_returns:
  "run_loop rp am df s = Inr s' \<Longrightarrow> \<exists>c'. plot_loop rp am df (s, c) = Inr (s', c')"
  by (induction df arbitrary: s c) (auto split: sum.splits)

section \<open>The prepared frame\<close>

lemma upt_0_Suc_map: "map f [0..<Suc n] = f 0 # map (\<lambda>j. f (Suc j)) [0..<n]"
proof -
  have "[0..<Suc n] = 0 # [Suc 0..<Suc n]"
    by (rule upt_conv_Cons) simp
  also have "[Suc 0..<Suc n] = map Suc [0..<n]"
    by (rule map_Suc_upt [symmetric])
  finally show ?thesis by (simp add: comp_def del: upt_Suc)
qed

lemma signals_for_draws:
  "signals_for df idxs g k =
     (map (\<lambda>j. [1, 2] ! (g (k + j) mod 2)) [0..<length idxs], k + length idxs)"
proof (induction idxs arbitrary: k)
  case Nil
  show ?case by simp
next
  case (Cons idx rest)
  show ?case
    by (simp add: Cons.IH total_signal_def random_choice_def upt_0_Suc_map eval_nat_numeral
        del: upt_Suc)
qed

lemma add_total_signal_draws:
  "add_total_signal df g k =
     (map (\<lambda>j. [1, 2] ! (g (k + j) mod 2)) [0..<length df], k + length df)"
  by (simp add: add_total_signal_def signals_for_draws)

lemma shift_nth:
  "i < length xs \<Longrightarrow> shift xs ! i = (if i = 0 then None else Some (xs ! (i - 1)))"
  by (cases i) (simp_all add: shift_def)

lemma length_shift: "length (shift xs) = length xs"
  by (simp add: shift_def)

lemma length_true_range: "length (true_range df) = length df"
  by (simp add: true_range_def length_shift)

lemma true_range_None:
  "i < length df \<Longrightarrow> true_range df ! i = None \<longleftrightarrow> i = 0"
  by (simp add: true_range_def length_shift shift_nth tr_at_def Let_def)

lemma length_add_atr: "length (add_atr df w) = length df"
  by (simp add: add_atr_def rolling_mean_def length_true_range Let_def)

lemma window_None:
  assumes "i < length df" "0 < w"
  shows "(None \<in> set (drop (Suc i - w) (take (Suc i) (true_range df)))) \<longleftrightarrow> i < w"
proof
  assume "None \<in> set (drop (Suc i - w) (take (Suc i) (true_range df)))"
  then obtain j where
    j: "j < length (drop (Suc i - w) (take (Suc i) (true_range df)))"
       "drop (Suc i - w) (take (Suc i) (true_range df)) ! j = None"
    by (metis in_set_conv_nth)
  from j(1) assms have lt: "Suc i - w + j < Suc i"
    by (simp add: length_true_range)
  with j(2) assms have "true_range df ! (Suc i - w + j) = None"
    by (simp add: length_true_range)
  with lt assms have "Suc i - w + j = 0"
    using true_range_None [of "Suc i - w + j" df] by simp
  then show "i < w" by simp
next
  assume a: "i < w"
  let ?win = "drop (Suc i - w) (take (Suc i) (true_range df))"
  from assms have "0 < length df" by auto
  with a assms have "0 < length ?win" "?win ! 0 = None"
    using true_range_None [of 0 df] by (simp_all add: length_true_range)
  then show "None \<in> set ?win"
    by (metis nth_mem)
qed

lemma add_atr_None:
  assumes "i < length df" "0 < w"
  shows "add_atr df w ! i = None \<longleftrightarrow> i < w"
proof -
  let ?win = "drop (Suc i - w) (take (Suc i) (true_range df))"
  have len: "length ?win < w \<longrightarrow> i < w"
    using assms by (simp add: length_true_range, arith)
  have "add_atr df w ! i =
          (if length ?win < w \<or> None \<in> set ?win then None
           else Some (sum_list (map the ?win) / real w))"
    using assms
    by (simp add: add_atr_def rolling_mean_def Let_def length_true_range)
  then show ?thesis
    using len window_None [OF assms] by auto
qed

lemma filter_upt_ge: "filter (\<lambda>i. \<not> i < m) [0..<n] = [m..<n]"
  by (induction n) auto

lemma map_filter_upt:
  "List.map_filter (\<lambda>i. if i < m then None else Some (h i)) [0..<n] = map h [m..<n]"
proof -
  have "map (the \<circ> (\<lambda>i. if i < m then None else Some (h i))) [m..<n] = map h [m..<n]"
    by (rule map_cong) auto
  moreover have "(\<lambda>x. \<exists>y. (if x < m then None else Some (h x)) = Some y) = (\<lambda>i. \<not> i < m)"
    by auto
  ultimately show ?thesis
    by (simp add: List.map_filter_def filter_upt_ge)
qed

lemma map_filter_map: "List.map_filter F (map f xs) = List.map_filter (F \<circ> f) xs"
  by (induction xs) (auto split: option.splits)

lemma map_filter_agree:
  "(\<And>x. x \<in> set xs \<Longrightarrow> F x = G x) \<Longrightarrow> List.map_filter F xs = List.map_filter G xs"
  by (induction xs) (auto split: option.splits)

lemma zip3_upt:
  assumes "length ys = length xs" "length zs = length xs"
  shows "zip xs (zip ys zs) = map (\<lambda>i. (xs ! i, ys ! i, zs ! i)) [0..<length xs]"
  using assms by (intro nth_equalityI) simp_all

lemma dropna_rows:
  assumes "0 < w" "length sigs = length df"
  shows "dropna df (add_atr df w) sigs =
           map (\<lambda>i. candle.extend (df ! i)
                       \<lparr>ATR = the (add_atr df w ! i), TotalSignal = sigs ! i\<rparr>)
             [w..<length df]"
proof -
  let ?F = "\<lambda>(c, a, sg). case a of
                        None \<Rightarrow> None
                      | Some v \<Rightarrow> Some (candle.extend c \<lparr>ATR = v, TotalSignal = sg\<rparr>)"
  let ?f = "\<lambda>i. (df ! i, add_atr df w ! i, sigs ! i)"
  let ?h = "\<lambda>i. candle.extend (df ! i)
                       \<lparr>ATR = the (add_atr df w ! i), TotalSignal = sigs ! i\<rparr>"
  have "List.map_filter (?F \<circ> ?f) [0..<length df] =
        List.map_filter (\<lambda>i. if i < w then None else Some (?h i)) [0..<length df]"
  proof -
    have "(?F \<circ> ?f) i = (if i < w then None else Some (?h i))" if "i < length df" for i
      using add_atr_None [OF that assms(1)] by (auto split: option.splits)
    then show ?thesis
      by (intro map_filter_agree) simp
  qed
  then show ?thesis
    using assms
    by (simp add: dropna_def zip3_upt length_add_atr map_filter_map map_filter_upt)
qed

lemma sample_prepare:
  "prepare sample_candles 2 (\<lambda>k. if even k then 0 else 1) 0 =
     ([\<lparr>High = 106, Low = 104, Close = 105, ATR = 4, TotalSignal = 1\<rparr>,
       \<lparr>High = 91, Low = 89, Close = 90, ATR = 11, TotalSignal = 2\<rparr>], 4)"
  by (simp add: frame_defs sample_candles_def)

section \<open>The baseline loop\<close>

lemma backtest_loop_append:
  "backtest_loop (xs @ ys) s =
     (case backtest_loop xs s of Inl e \<Rightarrow> Inl e | Inr s' \<Rightarrow> backtest_loop ys s')"
  by (induction xs arbitrary: s) (auto split: sum.splits)




section \<open>Claims\<close>

text \<open>
  C7. The simple long round trip: on the three bars closing at 100, 105 and 95, with ATR 2,
  multiplier 3 and a long signal on every bar, the engine enters long at 100 with the stop
  at 94 and a size of the risk amount over 6; the second bar lifts the stop to 99 and
  leaves the position open; the third bar closes it at 95 with a realized P&L of the size
  times (95 - 100), so the final equity is the initial equity less 5 times the size.
\<close>

theorem round_trip_scenario:
  fixes ic rp :: real
  assumes "0 < rp * ic"
  shows "state_after ic rp 3 round_trip_bars 1 =
           Inr \<lparr>equity = ic, position = rp * ic / 6, entry_price = 100, trades = [],
                trail_stop = 94\<rparr>
       \<and> state_after ic rp 3 round_trip_bars 2 =
           Inr \<lparr>equity = ic, position = rp * ic / 6, entry_price = 100, trades = [],
                trail_stop = 99\<rparr>
       \<and> state_after ic rp 3 round_trip_bars 3 =
           Inr \<lparr>equity = ic + rp * ic / 6 * (95 - 100), position = 0, entry_price = 100,
                trades = [rp * ic / 6 * (95 - 100)], trail_stop = 99\<rparr>
       \<and> run_tom_basso_coin_toss round_trip_bars ic rp 3 =
           Inr (ic - 5 * (rp * ic / 6), 1, rp * ic / 6 * (95 - 100))"
  using assms
  by (simp add: state_after_def run_tom_basso_coin_toss_def round_trip_bars_def
      initial_state_def mean_or_zero_def bar_defs)

theorem round_trip_scenario_witness:
  "(0::real) < 1 / 100 * 10000
   \<and> state_after 10000 (1 / 100) 3 round_trip_bars 3 =
       Inr \<lparr>equity = 10000 - 250 / 3, position = 0, entry_price = 100,
            trades = [- (250 / 3)], trail_stop = 99\<rparr>
   \<and> run_tom_basso_coin_toss round_trip_bars 10000 (1 / 100) 3 =
       Inr (10000 - 250 / 3, 1, - (250 / 3))"
proof -
  have h: "(0::real) < 1 / 100 * 10000" by simp
  show ?thesis using h round_trip_scenario [OF h] by simp
qed

text \<open>
  C3. Monotonic ratchet: when the engine is long after bar \<open>i - 1\<close> and still long after
  bar \<open>i\<close>, the stop after bar \<open>i\<close> is the maximum of the stop before and the close less
  the multiplier times the ATR, so it has not decreased; when it is short after both bars,
  the stop is the minimum of the stop before and the close plus the multiplier times the
  ATR, so it has not increased. The loop of the plot variant runs the same
  \<open>process_bar\<close> (\<open>plot_loop_curve\<close>).
\<close>

theorem monotonic_ratchet:
  assumes "i < length df"
    and "state_after ic rp am df i = Inr s"
    and "state_after ic rp am df (Suc i) = Inr s'"
  shows "(0 < position s \<and> 0 < position s' \<longrightarrow>
            trail_stop s' = max (trail_stop s) (Close (df ! i) - am * ATR (df ! i)) \<and>
            trail_stop s \<le> trail_stop s')
       \<and> (position s < 0 \<and> position s' < 0 \<longrightarrow>
            trail_stop s' = min (trail_stop s) (Close (df ! i) + am * ATR (df ! i)) \<and>
            trail_stop s' \<le> trail_stop s)"
proof -
  from assms have b: "process_bar rp am (df ! i) s = Inr s'"
    by (simp add: state_after_Suc)
  show ?thesis
    using long_stays_open [OF b] short_stays_open [OF b] by simp
qed

theorem monotonic_ratchet_witness:
  "state_after 10000 (1 / 100) 3 round_trip_bars 1 =
     Inr \<lparr>equity = 10000, position = 50 / 3, entry_price = 100, trades = [], trail_stop = 94\<rparr>
   \<and> state_after 10000 (1 / 100) 3 round_trip_bars (Suc 1) =
     Inr \<lparr>equity = 10000, position = 50 / 3, entry_price = 100, trades = [], trail_stop = 99\<rparr>
   \<and> (94::real) \<le> 99
   \<and> state_after 10000 (1 / 100) 3 short_bars 1 =
     Inr \<lparr>equity = 10000, position = - (50 / 3), entry_price = 100, trades = [],
          trail_stop = 106\<rparr>
   \<and> state_after 10000 (1 / 100) 3 short_bars (Suc 1) =
     Inr \<lparr>equity = 10000, position = - (50 / 3), entry_price = 100, trades = [],
          trail_stop = 101\<rparr>
   \<and> (101::real) \<le> 106"
proof -
  have l1: "state_after 10000 (1 / 100) 3 round_trip_bars 1 =
     Inr \<lparr>equity = 10000, position = 50 / 3, entry_price = 100, trades = [], trail_stop = 94\<rparr>"
    by (simp add: run_defs round_trip_bars_def bar_defs)
  have l2: "state_after 10000 (1 / 100) 3 round_trip_bars (Suc 1) =
     Inr \<lparr>equity = 10000, position = 50 / 3, entry_price = 100, trades = [], trail_stop = 99\<rparr>"
    by (simp add: run_defs round_trip_bars_def bar_defs)
  have s1: "state_after 10000 (1 / 100) 3 short_bars 1 =
     Inr \<lparr>equity = 10000, position = - (50 / 3), entry_price = 100, trades = [],
          trail_stop = 106\<rparr>"
    by (simp add: run_defs short_bars_def bar_defs)
  have s2: "state_after 10000 (1 / 100) 3 short_bars (Suc 1) =
     Inr \<lparr>equity = 10000, position = - (50 / 3), entry_price = 100, trades = [],
          trail_stop = 101\<rparr>"
    by (simp add: run_defs short_bars_def bar_defs)
  have n1: "1 < length round_trip_bars" by (simp add: round_trip_bars_def)
  have n2: "1 < length short_bars" by (simp add: short_bars_def)
  show ?thesis
    using monotonic_ratchet [OF n1 l1 l2] monotonic_ratchet [OF n2 s1 s2] l1 l2 s1 s2
    by simp
qed

text \<open>
  C4. Equity conservation: the equity at the end of the loop is the initial capital plus
  the sum of the trade log; the trailing-stop engine returns that equity with the number
  of trades and their mean, so the equity is the initial capital plus the number times the
  mean; the plot variant returns the curve and the log, and the last entry of the curve is
  the initial capital plus the sum of the log. A run over bars whose stop distance is
  never zero returns.
\<close>

theorem equity_conservation:
  "(run_loop rp am df (initial_state ic) = Inr s \<longrightarrow> equity s = ic + sum_list (trades s))
   \<and> (run_tom_basso_coin_toss df ic rp am = Inr (final_equity, n, avg) \<longrightarrow>
        final_equity = ic + real n * avg)
   \<and> (run_tom_basso_coin_toss_plot df ic rp am = Inr (curve, tlog) \<longrightarrow>
        last curve = ic + sum_list tlog)
   \<and> ((\<forall>r\<in>set df. am * ATR r \<noteq> 0) \<longrightarrow>
        (\<exists>s. run_loop rp am df (initial_state ic) = Inr s))"
proof -
  have a: "equity s = ic + sum_list (trades s)"
    if "run_loop rp am df (initial_state ic) = Inr s" for s
    using run_loop_conserves [OF that] by (simp add: initial_state_def)
  have b: "final_equity = ic + real n * avg"
    if "run_tom_basso_coin_toss df ic rp am = Inr (final_equity, n, avg)"
    using that a
    by (auto simp: run_tom_basso_coin_toss_def mean_or_zero_def split: sum.splits)
  have c: "last curve = ic + sum_list tlog"
    if h: "run_tom_basso_coin_toss_plot df ic rp am = Inr (curve, tlog)"
  proof -
    from h obtain s where
      p: "plot_loop rp am df (initial_state ic, [ic]) = Inr (s, curve)" and l: "tlog = trades s"
      by (auto simp: run_tom_basso_coin_toss_plot_def split: sum.splits)
    note q = plot_loop_curve [OF p]
    show ?thesis
    proof (cases df rule: rev_cases)
      case Nil
      with p l show ?thesis by (auto simp: initial_state_def)
    next
      case (snoc xs x)
      with q obtain si where
        "run_loop rp am (take (Suc (length xs)) df) (initial_state ic) = Inr si"
        "curve ! Suc (length xs) = equity si"
        by auto
      with q snoc have "curve ! Suc (length xs) = equity s" by simp
      moreover have "length curve = Suc (Suc (length xs))"
        using q snoc by simp
      then have "curve \<noteq> []" "length curve - 1 = Suc (length xs)"
        by auto
      then have "last curve = curve ! Suc (length xs)"
        by (simp add: last_conv_nth)
      ultimately show ?thesis using a q l by simp
    qed
  qed
  from a b c run_loop_returns [of df am rp "initial_state ic"] show ?thesis by blast
qed

theorem equity_conservation_witness:
  "run_loop (1 / 100) 3 round_trip_bars (initial_state 10000) =
     Inr \<lparr>equity = 29750 / 3, position = 0, entry_price = 100, trades = [- (250 / 3)],
          trail_stop = 99\<rparr>
   \<and> run_tom_basso_coin_toss round_trip_bars 10000 (1 / 100) 3 =
       Inr (29750 / 3, 1, - (250 / 3))
   \<and> run_tom_basso_coin_toss_plot round_trip_bars 10000 (1 / 100) 3 =
       Inr ([10000, 10000, 10000, 29750 / 3], [- (250 / 3)])
   \<and> (29750 / 3 :: real) = 10000 + sum_list [- (250 / 3)]
   \<and> (29750 / 3 :: real) = 10000 + real 1 * (- (250 / 3))
   \<and> last [10000, 10000, 10000, 29750 / 3 :: real] = 10000 + sum_list [- (250 / 3)]"
proof -
  have a: "run_loop (1 / 100) 3 round_trip_bars (initial_state 10000) =
     Inr \<lparr>equity = 29750 / 3, position = 0, entry_price = 100, trades = [- (250 / 3)],
          trail_stop = 99\<rparr>"
    by (simp add: run_defs round_trip_bars_def bar_defs)
  have b: "run_tom_basso_coin_toss round_trip_bars 10000 (1 / 100) 3 =
       Inr (29750 / 3, 1, - (250 / 3))"
    by (simp add: run_defs round_trip_bars_def bar_defs)
  have c: "run_tom_basso_coin_toss_plot round_trip_bars 10000 (1 / 100) 3 =
       Inr ([10000, 10000, 10000, 29750 / 3], [- (250 / 3)])"
    by (simp add: run_tom_basso_coin_toss_plot_def run_defs round_trip_bars_def bar_defs)
  have d: "\<forall>r\<in>set round_trip_bars. (3::real) * ATR r \<noteq> 0"
    by (simp add: round_trip_bars_def)
  show ?thesis
    using a b c d
      equity_conservation [of "1 / 100" 3 round_trip_bars 10000
        "\<lparr>equity = 29750 / 3, position = 0, entry_price = 100, trades = [- (250 / 3)],
          trail_stop = 99\<rparr>" "29750 / 3" 1 "- (250 / 3)"
        "[10000, 10000, 10000, 29750 / 3]" "[- (250 / 3)]"]
    by simp
qed

text \<open>
  C1, as the spec states it, fails: on a bar with ATR 0 and a long signal the flat engine
  does not skip the entry; it divides the risk amount by the stop distance 0, and so
  does the whole run over that bar.
\<close>

theorem zero_atr_entry_not_skipped:
  "3 * ATR zero_atr_bar = 0
   \<and> entry_step (1 / 100) 3 zero_atr_bar (initial_state 10000) = Inl ZeroDivision
   \<and> entry_step (1 / 100) 3 zero_atr_bar (initial_state 10000) \<noteq> Inr (initial_state 10000)
   \<and> run_tom_basso_coin_toss [zero_atr_bar] 10000 (1 / 100) 3 = Inl ZeroDivision"
  by (simp add: run_defs zero_atr_bar_def bar_defs)

text \<open>
  C1, amended. The entry step has no guard on the stop distance. On a bar whose stop
  distance (the multiplier times the ATR) is zero, an entry or reversal whose condition
  holds (signal 2 with a position at most 0, signal 1 with a position at least 0) divides
  the risk amount by zero; the entry step leaves the state as it is on such a bar only
  when neither condition holds.
\<close>

theorem zero_stop_distance_entry:
  assumes "am * ATR r = 0"
  shows "entry_step rp am r s =
           (if TotalSignal r = 2 \<and> position s \<le> 0 \<or> TotalSignal r = 1 \<and> 0 \<le> position s
            then Inl ZeroDivision else Inr s)"
  using assms by (auto simp: entry_step_def float_div_def Let_def)

theorem zero_stop_distance_entry_witness:
  "(3::real) * ATR zero_atr_bar = 0
   \<and> entry_step (1 / 100) 3 zero_atr_bar (initial_state 10000) = Inl ZeroDivision
   \<and> entry_step (1 / 100) 3 zero_atr_bar
        \<lparr>equity = 10000, position = 50 / 3, entry_price = 100, trades = [], trail_stop = 94\<rparr>
     = Inr \<lparr>equity = 10000, position = 50 / 3, entry_price = 100, trades = [],
            trail_stop = 94\<rparr>"
proof -
  have h: "(3::real) * ATR zero_atr_bar = 0" by (simp add: zero_atr_bar_def)
  show ?thesis
    using h zero_stop_distance_entry [OF h, of "1 / 100" "initial_state 10000"]
      zero_stop_distance_entry [OF h, of "1 / 100"
        "\<lparr>equity = 10000, position = 50 / 3, entry_price = 100, trades = [],
          trail_stop = 94\<rparr>"]
    by (simp add: zero_atr_bar_def initial_state_def)
qed

text \<open>
  C2. The engine at a reversal: long at 100 after the first bar, the short signal at 110
  replaces the position by a short one entered at 110; the trade log is still empty and
  the equity is still the initial capital, so the 10 points the long position had gained
  are booked nowhere. The stop exits of the same function (\<open>trailing_step\<close>) and the sell
  of \<open>backtest_bar\<close> do append the P&L and add it to the equity.
\<close>

theorem reversal_books_no_trade:
  "state_after 10000 (1 / 100) 3 reversal_bars 1 =
     Inr \<lparr>equity = 10000, position = 50 / 3, entry_price = 100, trades = [],
          trail_stop = 94\<rparr>
   \<and> state_after 10000 (1 / 100) 3 reversal_bars 2 =
     Inr \<lparr>equity = 10000, position = - (50 / 3), entry_price = 110, trades = [],
          trail_stop = 116\<rparr>
   \<and> run_tom_basso_coin_toss reversal_bars 10000 (1 / 100) 3 = Inr (10000, 0, 0)"
  by (simp add: run_defs reversal_bars_def bar_defs)





text \<open>
  C5, as stated, fails: over three bars the curve of the plot variant has four entries,
  and its third entry is the equity before the third bar, not the equity after it.
\<close>

theorem equity_curve_counterexample:
  "run_tom_basso_coin_toss_plot round_trip_bars 10000 (1 / 100) 3 =
     Inr ([10000, 10000, 10000, 29750 / 3], [- (250 / 3)])
   \<and> length [10000, 10000, 10000, 29750 / 3 :: real] \<noteq> length round_trip_bars
   \<and> state_after 10000 (1 / 100) 3 round_trip_bars 3 =
       Inr \<lparr>equity = 29750 / 3, position = 0, entry_price = 100, trades = [- (250 / 3)],
            trail_stop = 99\<rparr>
   \<and> [10000, 10000, 10000, 29750 / 3 :: real] ! 2 \<noteq> 29750 / 3"
  by (simp add: run_tom_basso_coin_toss_plot_def run_defs round_trip_bars_def bar_defs)

text \<open>
  C5, amended. The curve the plot variant returns has one entry more than there are bars:
  it starts with the initial capital, and after it comes one snapshot per bar, in bar
  order, the equity after that bar, whether or not a trade closed on it.
\<close>

theorem equity_curve_snapshots:
  assumes "run_tom_basso_coin_toss_plot df ic rp am = Inr (equity_curve, tlog)"
  shows "length equity_curve = length df + 1
       \<and> equity_curve ! 0 = ic
       \<and> (\<forall>i<length df. \<exists>s. state_after ic rp am df (Suc i) = Inr s \<and>
             equity_curve ! (Suc i) = equity s)"
proof -
  from assms obtain s where
    p: "plot_loop rp am df (initial_state ic, [ic]) = Inr (s, equity_curve)"
    by (auto simp: run_tom_basso_coin_toss_plot_def split: sum.splits)
  from plot_loop_curve [OF p] show ?thesis
    by (simp add: state_after_def)
qed

theorem equity_curve_snapshots_witness:
  "run_tom_basso_coin_toss_plot round_trip_bars 10000 (1 / 100) 3 =
     Inr ([10000, 10000, 10000, 29750 / 3], [- (250 / 3)])
   \<and> length [10000, 10000, 10000, 29750 / 3 :: real] = length round_trip_bars + 1
   \<and> (\<exists>s. state_after 10000 (1 / 100) 3 round_trip_bars (Suc 2) = Inr s \<and>
          [10000, 10000, 10000, 29750 / 3] ! (Suc 2) = equity s)"
proof -
  have a: "run_tom_basso_coin_toss_plot round_trip_bars 10000 (1 / 100) 3 =
     Inr ([10000, 10000, 10000, 29750 / 3], [- (250 / 3)])"
    by (simp add: run_tom_basso_coin_toss_plot_def run_defs round_trip_bars_def bar_defs)
  have n: "2 < length round_trip_bars"
    by (simp add: round_trip_bars_def)
  from equity_curve_snapshots [OF a] n
  have "\<exists>s. state_after 10000 (1 / 100) 3 round_trip_bars (Suc 2) = Inr s \<and>
          [10000, 10000, 10000, 29750 / 3] ! (Suc 2) = equity s"
    by blast
  moreover have "length [10000, 10000, 10000, 29750 / 3 :: real] = length round_trip_bars + 1"
    using equity_curve_snapshots [OF a] by blast
  ultimately show ?thesis using a by blast
qed

text \<open>
  C6, as stated, fails: with a window of 2 the first two of four bars have no ATR, yet
  \<open>add_total_signal\<close> draws a signal for each of the four bars (the generator has made
  four draws), before \<open>dropna\<close> removes the two warm-up bars; the two bars that reach
  the backtest carry the third and the fourth draw.
\<close>

theorem warmup_signal_counterexample:
  "add_atr (drop_degenerate sample_candles) 2 = [None, None, Some 4, Some 11]
   \<and> add_total_signal (drop_degenerate sample_candles) (\<lambda>k. if even k then 0 else 1) 0 = ([1, 2, 1, 2], 4)
   \<and> prepare sample_candles 2 (\<lambda>k. if even k then 0 else 1) 0 =
     ([\<lparr>High = 106, Low = 104, Close = 105, ATR = 4, TotalSignal = 1\<rparr>,
       \<lparr>High = 91, Low = 89, Close = 90, ATR = 11, TotalSignal = 2\<rparr>], 4)"
  by (simp add: frame_defs sample_candles_def)

text \<open>
  C6, amended. With a window of at least one bar, the ATR of a bar is undefined exactly
  when the bar is among the first \<open>length\<close> bars of the frame. \<open>add_total_signal\<close> runs
  before \<open>dropna\<close> and draws one signal for every bar of the frame, the warm-up bars
  included. \<open>dropna\<close> then removes the warm-up bars with their signals: the rows the
  backtest loop gets are the bars from index \<open>length\<close> on, in order, each with its ATR
  and with the draw made for it.
\<close>

theorem warmup_bars_dropped:
  assumes "0 < w"
  shows "(\<forall>i<length (drop_degenerate csv).
            add_atr (drop_degenerate csv) w ! i = None \<longleftrightarrow> i < w)
       \<and> add_total_signal (drop_degenerate csv) g k =
           (map (\<lambda>i. [1, 2] ! (g (k + i) mod 2)) [0..<length (drop_degenerate csv)],
            k + length (drop_degenerate csv))
       \<and> prepare csv w g k =
           (map (\<lambda>i. candle.extend (drop_degenerate csv ! i)
                        \<lparr>ATR = the (add_atr (drop_degenerate csv) w ! i),
                         TotalSignal = [1, 2] ! (g (k + i) mod 2)\<rparr>)
              [w..<length (drop_degenerate csv)],
            k + length (drop_degenerate csv))"
proof -
  let ?df = "drop_degenerate csv"
  let ?sigs = "map (\<lambda>i. [1, 2] ! (g (k + i) mod 2)) [0..<length ?df]"
  have a: "\<forall>i<length ?df. add_atr ?df w ! i = None \<longleftrightarrow> i < w"
    using add_atr_None [OF _ assms] by blast
  have b: "add_total_signal ?df g k = (?sigs, k + length ?df)"
    by (rule add_total_signal_draws)
  have "dropna ?df (add_atr ?df w) ?sigs =
          map (\<lambda>i. candle.extend (?df ! i)
                      \<lparr>ATR = the (add_atr ?df w ! i), TotalSignal = ?sigs ! i\<rparr>)
            [w..<length ?df]"
    by (rule dropna_rows [OF assms]) simp
  also have "\<dots> = map (\<lambda>i. candle.extend (?df ! i)
                      \<lparr>ATR = the (add_atr ?df w ! i),
                       TotalSignal = [1, 2] ! (g (k + i) mod 2)\<rparr>)
            [w..<length ?df]"
    by (rule map_cong) simp_all
  finally have c: "prepare csv w g k =
      (map (\<lambda>i. candle.extend (?df ! i)
                      \<lparr>ATR = the (add_atr ?df w ! i),
                       TotalSignal = [1, 2] ! (g (k + i) mod 2)\<rparr>)
            [w..<length ?df], k + length ?df)"
    by (simp add: prepare_def b Let_def)
  from a b c show ?thesis by blast
qed

theorem warmup_bars_dropped_witness:
  "(0::nat) < 2
   \<and> add_atr (drop_degenerate sample_candles) 2 ! 1 = None
   \<and> add_atr (drop_degenerate sample_candles) 2 ! 2 \<noteq> None
   \<and> snd (add_total_signal (drop_degenerate sample_candles) (\<lambda>k. if even k then 0 else 1) 0) = 4
   \<and> prepare sample_candles 2 (\<lambda>k. if even k then 0 else 1) 0 =
     ([\<lparr>High = 106, Low = 104, Close = 105, ATR = 4, TotalSignal = 1\<rparr>,
       \<lparr>High = 91, Low = 89, Close = 90, ATR = 11, TotalSignal = 2\<rparr>], 4)"
proof -
  have h: "(0::nat) < 2" by simp
  have n: "length (drop_degenerate sample_candles) = 4"
    by (simp add: drop_degenerate_def sample_candles_def)
  note w = warmup_bars_dropped [OF h, of sample_candles "\<lambda>k. if even k then 0 else 1" 0]
  from w n have "add_atr (drop_degenerate sample_candles) 2 ! 1 = None"
    by simp
  moreover from w n have "add_atr (drop_degenerate sample_candles) 2 ! 2 \<noteq> None"
    by simp
  moreover from w n have "snd (add_total_signal (drop_degenerate sample_candles) (\<lambda>k. if even k then 0 else 1) 0) = 4"
    by simp
  ultimately show ?thesis
    using sample_prepare by simp
qed

text \<open>
  C8, as stated, fails: \<open>total_signal\<close> takes the frame and a candle and no random
  source, and its result is not determined by them. Called with the same arguments, with
  numpy's global generator about to draw 0 or about to draw 1, it returns 1 or 2; the same
  four bars then give different signal columns, different equity curves and different
  trade logs.
\<close>

theorem unseeded_signals_counterexample:
  "total_signal sample_candles 0 (\<lambda>k. 0) 0 = (1, 1)
   \<and> total_signal sample_candles 0 (\<lambda>k. 1) 0 = (2, 1)
   \<and> fst (add_total_signal (drop_degenerate sample_candles) (\<lambda>k. 0) 0) = [1, 1, 1, 1]
   \<and> fst (add_total_signal (drop_degenerate sample_candles) (\<lambda>k. 1) 0) = [2, 2, 2, 2]
   \<and> main_plot sample_candles 1 (\<lambda>k. 0) 0 = Inr ([10000, 10000, 10000, 10000], [])
   \<and> main_plot sample_candles 1 (\<lambda>k. 1) 0 =
       Inr ([10000, 10000, 10000, 29500 / 3], [- (500 / 3)])
   \<and> main_trailing_stop sample_candles 1 (\<lambda>k. 0) 0 = Inr (10000, 0, 0)
   \<and> main_trailing_stop sample_candles 1 (\<lambda>k. 1) 0 = Inr (29500 / 3, 1, - (500 / 3))"
  by (simp add: main_plot_def main_trailing_stop_def run_tom_basso_coin_toss_plot_def
      run_defs frame_defs sample_candles_def bar_defs)

text \<open>
  C8, amended. The signal generator takes no random source; it draws from numpy's global
  generator, which the scripts never seed. Two runs over the same bars give the same
  signal column, the same prepared frame and the same results of both scripts whenever the
  global generator makes the same draws for the bars of the frame, one draw per bar that
  \<open>read_csv_to_dataframe\<close> keeps.
\<close>

theorem same_draws_same_run:
  assumes "\<forall>j<length (drop_degenerate csv). g (k + j) = g' (k + j)"
  shows "add_total_signal (drop_degenerate csv) g k = add_total_signal (drop_degenerate csv) g' k
       \<and> prepare csv w g k = prepare csv w g' k
       \<and> main_trailing_stop csv w g k = main_trailing_stop csv w g' k
       \<and> main_plot csv w g k = main_plot csv w g' k"
proof -
  have "map (\<lambda>j. [1, 2] ! (g (k + j) mod 2)) [0..<length (drop_degenerate csv)] =
        map (\<lambda>j. [1, 2 :: int] ! (g' (k + j) mod 2)) [0..<length (drop_degenerate csv)]"
    using assms by (intro map_cong) simp_all
  then have a: "add_total_signal (drop_degenerate csv) g k =
                add_total_signal (drop_degenerate csv) g' k"
    by (simp add: add_total_signal_draws)
  then have b: "prepare csv w g k = prepare csv w g' k"
    by (simp add: prepare_def)
  from a b show ?thesis
    by (simp add: main_trailing_stop_def main_plot_def)
qed

theorem same_draws_same_run_witness:
  "add_total_signal (drop_degenerate sample_candles) (\<lambda>k. if k < 4 then 1 else 0) 0 =
     add_total_signal (drop_degenerate sample_candles) (\<lambda>k. 1) 0
   \<and> main_trailing_stop sample_candles 1 (\<lambda>k. if k < 4 then 1 else 0) 0 =
       main_trailing_stop sample_candles 1 (\<lambda>k. 1) 0
   \<and> main_plot sample_candles 1 (\<lambda>k. if k < 4 then 1 else 0) 0 =
       main_plot sample_candles 1 (\<lambda>k. 1) 0
   \<and> main_plot sample_candles 1 (\<lambda>k. 1) 0 =
       Inr ([10000, 10000, 10000, 29500 / 3], [- (500 / 3)])"
proof -
  have h: "\<forall>j<length (drop_degenerate sample_candles).
      (\<lambda>k. if k < 4 then 1 else 0) (0 + j) = (\<lambda>k. 1 :: nat) (0 + j)"
    by (simp add: drop_degenerate_def sample_candles_def)
  have e: "main_plot sample_candles 1 (\<lambda>k. 1) 0 =
       Inr ([10000, 10000, 10000, 29500 / 3], [- (500 / 3)])"
    by (simp add: main_plot_def run_tom_basso_coin_toss_plot_def
      run_defs frame_defs sample_candles_def bar_defs)
  from same_draws_same_run [OF h, of 1] e show ?thesis
    by blast
qed



end
